theory Spec2Isabelle
  imports Complex_Main "HOL-Library.Sublist"
begin

section \<open>Conventions of the embedding\<close>

text \<open>
  The sale transaction engine of the point-of-sale back end (sale.service.ts,
  discount.service.ts, promotion.service.ts) is embedded function by function.

  \<^item> Amounts of money, percentages and rates are JavaScript numbers in the source and
    DECIMAL columns in the schema. They are modelled as exact rationals (\<^typ>\<open>rat\<close>):
    neither the binary rounding of the JavaScript arithmetic nor the rounding of a value to
    two decimals when it is stored in a DECIMAL(15,2) column is modelled.
  \<^item> Quantities, stock levels and loyalty points are INT columns: \<^typ>\<open>int\<close>, without the
    bounds of a 32-bit column.
  \<^item> An optional field (\<open>x?: T\<close>, a nullable column) is a \<^typ>\<open>'a option\<close>; an optional
    boolean flag is a \<^typ>\<open>bool\<close>, false when absent.
    JavaScript's truthiness tests are written out: an absent value, the number \<open>0\<close> and the
    empty string are falsy.
  \<^item> A thrown exception is the left summand of a result; a database transaction is a
    function from the state of the tables to a result and the state that is left, which
    is the initial state when the transaction is rolled back.
  \<^item> Timestamps written with \<open>NOW()\<close> are not part of the modelled rows.
\<close>

subsection \<open>JavaScript idioms\<close>

text \<open>\<open>if (s)\<close> for an optional string.\<close>

fun truthy_str :: "string option \<Rightarrow> bool" where
  "truthy_str None = False"
| "truthy_str (Some s) = (s \<noteq> [])"

text \<open>\<open>if (x)\<close> for an optional number.\<close>

fun truthy_num :: "rat option \<Rightarrow> bool" where
  "truthy_num None = False"
| "truthy_num (Some v) = (v \<noteq> 0)"

fun truthy_nat :: "nat option \<Rightarrow> bool" where
  "truthy_nat None = False"
| "truthy_nat (Some n) = (n \<noteq> 0)"

text \<open>\<open>x || d\<close> for an optional number \<open>x\<close>.\<close>

fun num_or :: "rat option \<Rightarrow> rat \<Rightarrow> rat" where
  "num_or None d = d"
| "num_or (Some v) d = (if v = 0 then d else v)"

fun int_or :: "int option \<Rightarrow> int \<Rightarrow> int" where
  "int_or None d = d"
| "int_or (Some v) d = (if v = 0 then d else v)"

text \<open>\<open>s || null\<close> for an optional string.\<close>

fun str_or_null :: "string option \<Rightarrow> string option" where
  "str_or_null None = None"
| "str_or_null (Some s) = (if s = [] then None else Some s)"

text \<open>\<open>String.prototype.toUpperCase\<close>, on the ASCII letters.\<close>

definition upper_char :: "char \<Rightarrow> char" where
  "upper_char c =
     (case map_of (zip ''abcdefghijklmnopqrstuvwxyz'' ''ABCDEFGHIJKLMNOPQRSTUVWXYZ'') c of
        Some u \<Rightarrow> u
      | None \<Rightarrow> c)"

definition toUpperCase :: "string \<Rightarrow> string" where
  "toUpperCase s = map upper_char s"

text \<open>\<open>s.replace("_", " ")\<close>: only the first occurrence is replaced.\<close>

fun replace_first_underscore :: "string \<Rightarrow> string" where
  "replace_first_underscore [] = []"
| "replace_first_underscore (c # cs) =
     (if c = CHR ''_'' then CHR '' '' # cs else c # replace_first_underscore cs)"

text \<open>The decimal rendering of an integer inside a template string.\<close>

definition digit_char :: "nat \<Rightarrow> char" where
  "digit_char n = ''0123456789'' ! n"

fun show_nat :: "nat \<Rightarrow> string" where
  "show_nat n =
     (if n < 10 then [digit_char n] else show_nat (n div 10) @ [digit_char (n mod 10)])"

definition show_int :: "int \<Rightarrow> string" where
  "show_int i = (if i < 0 then CHR ''-'' # show_nat (nat (- i)) else show_nat (nat i))"

section \<open>Discount evaluator (discount.service.ts)\<close>

record discount_setting =
  ds_discount_type :: string
  ds_name :: string
  ds_percentage :: rat
  ds_is_vat_exempt :: bool
  ds_is_active :: bool

record membership_tier =
  mt_name :: string
  mt_discount_percentage :: rat
  mt_points_multiplier :: "rat option"
  mt_is_active :: bool

record applied_discount =
  ad_type :: string
  ad_name :: string
  ad_percentage :: rat
  ad_amount :: rat

record discount_params =
  dp_subtotal :: rat
  dp_customerId :: "string option"
  dp_isSeniorCitizen :: bool
  dp_isPwd :: bool
  dp_membershipTierId :: "string option"

record discount_result =
  governmentDiscount :: rat
  membershipDiscount :: rat
  isVatExempt :: bool
  appliedDiscounts :: "applied_discount list"

text \<open>
  \<open>SELECT * FROM discount_settings WHERE is_active = TRUE AND discount_type IN
  ('senior_citizen', 'pwd')\<close>
\<close>

definition govDiscounts :: "discount_setting list \<Rightarrow> discount_setting list" where
  "govDiscounts settings =
     filter (\<lambda>d. ds_is_active d \<and>
                 (ds_discount_type d = ''senior_citizen'' \<or> ds_discount_type d = ''pwd''))
            settings"

text \<open>
  The government step of \<open>calculateDiscounts\<close>: the senior-citizen branch, and the PWD
  branch in its \<open>else if\<close>. It yields the government discount, the VAT-exemption flag
  and the entries pushed on \<open>appliedDiscounts\<close>.
\<close>

definition government_step ::
  "discount_setting list \<Rightarrow> discount_params \<Rightarrow> rat \<times> bool \<times> applied_discount list" where
  "government_step settings params =
     (if dp_isSeniorCitizen params then
        (case find (\<lambda>d. ds_discount_type d = ''senior_citizen'') (govDiscounts settings) of
           Some scDiscount \<Rightarrow>
             (dp_subtotal params * (ds_percentage scDiscount / 100),
              ds_is_vat_exempt scDiscount,
              [\<lparr>ad_type = ''senior_citizen'', ad_name = ds_name scDiscount,
                ad_percentage = ds_percentage scDiscount,
                ad_amount = dp_subtotal params * (ds_percentage scDiscount / 100)\<rparr>])
         | None \<Rightarrow> (0, False, []))
      else if dp_isPwd params then
        (case find (\<lambda>d. ds_discount_type d = ''pwd'') (govDiscounts settings) of
           Some pwdDiscount \<Rightarrow>
             (dp_subtotal params * (ds_percentage pwdDiscount / 100),
              ds_is_vat_exempt pwdDiscount,
              [\<lparr>ad_type = ''pwd'', ad_name = ds_name pwdDiscount,
                ad_percentage = ds_percentage pwdDiscount,
                ad_amount = dp_subtotal params * (ds_percentage pwdDiscount / 100)\<rparr>])
         | None \<Rightarrow> (0, False, []))
      else (0, False, []))"

text \<open>
  \<open>SELECT * FROM membership_tiers WHERE id = $1 AND is_active = TRUE\<close>, run only when
  \<open>membershipTierId\<close> is truthy.
\<close>

definition active_tier :: "(string \<rightharpoonup> membership_tier) \<Rightarrow> string option \<Rightarrow> membership_tier option" where
  "active_tier tiers tid =
     (if truthy_str tid then
        (case tiers (the tid) of
           Some tier \<Rightarrow> if mt_is_active tier then Some tier else None
         | None \<Rightarrow> None)
      else None)"

definition calculateDiscounts ::
  "discount_setting list \<Rightarrow> (string \<rightharpoonup> membership_tier) \<Rightarrow> discount_params \<Rightarrow> discount_result" where
  "calculateDiscounts settings tiers params =
     (case government_step settings params of
        (gov, vat, applied) \<Rightarrow>
          (case active_tier tiers (dp_membershipTierId params) of
             Some tier \<Rightarrow>
               (let discountableAmount = dp_subtotal params - gov;
                    member = discountableAmount * (mt_discount_percentage tier / 100)
                in \<lparr>governmentDiscount = gov, membershipDiscount = member, isVatExempt = vat,
                     appliedDiscounts =
                       (if member > 0
                        then applied @ [\<lparr>ad_type = ''membership'', ad_name = mt_name tier,
                                          ad_percentage = mt_discount_percentage tier,
                                          ad_amount = member\<rparr>]
                        else applied)\<rparr>)
           | None \<Rightarrow>
               \<lparr>governmentDiscount = gov, membershipDiscount = 0, isVatExempt = vat,
                appliedDiscounts = applied\<rparr>))"

section \<open>Promotion evaluator (promotion.service.ts)\<close>

text \<open>
  A promotion as \<open>mapPromotion\<close> returns it. \<open>buy_quantity\<close> and \<open>get_quantity\<close> are
  counts and are taken as naturals; the INT columns of the schema would also admit negative
  values, for which the source divides by a sum that may be zero and computes with a
  non-finite number. Such configurations are outside the model.
\<close>

record promotion =
  pr_id :: string
  pr_code :: "string option"
  pr_promotionType :: string
  pr_discountValue :: rat
  pr_buyQuantity :: "nat option"
  pr_getQuantity :: "nat option"
  pr_minPurchaseAmount :: "rat option"
  pr_maxDiscountAmount :: "rat option"
  pr_usageLimit :: "int option"
  pr_currentUsage :: int
  pr_targetType :: string
  pr_targetProducts :: "string list option"
  pr_targetCategories :: "string list option"
  pr_targetCustomers :: "string list option"
  pr_targetMembershipTiers :: "string list option"
  pr_startDate :: int
  pr_endDate :: int
  pr_isStackable :: bool
  pr_priority :: int
  pr_isActive :: bool

record cart_item =
  ci_productId :: string
  ci_categoryId :: "string option"
  ci_quantity :: int
  ci_price :: rat

text \<open>\<open>arr && arr.length > 0\<close> for an optional array.\<close>

fun nonempty_target :: "string list option \<Rightarrow> bool" where
  "nonempty_target None = False"
| "nonempty_target (Some xs) = (xs \<noteq> [])"

definition checkPromotionConditions ::
  "promotion \<Rightarrow> cart_item list \<Rightarrow> rat \<Rightarrow> string option \<Rightarrow> string option \<Rightarrow> bool" where
  "checkPromotionConditions promo items subtotal customerId membershipTierId =
     (if truthy_num (pr_minPurchaseAmount promo) \<and> subtotal < the (pr_minPurchaseAmount promo)
      then False
      else if pr_targetType promo = ''products'' \<and> nonempty_target (pr_targetProducts promo) \<and>
              \<not> (\<exists>item \<in> set items. ci_productId item \<in> set (the (pr_targetProducts promo)))
      then False
      else if pr_targetType promo = ''categories'' \<and> nonempty_target (pr_targetCategories promo) \<and>
              \<not> (\<exists>item \<in> set items. truthy_str (ci_categoryId item) \<and>
                      the (ci_categoryId item) \<in> set (the (pr_targetCategories promo)))
      then False
      else if pr_targetType promo = ''customers'' \<and> nonempty_target (pr_targetCustomers promo) \<and>
              (\<not> truthy_str customerId \<or> the customerId \<notin> set (the (pr_targetCustomers promo)))
      then False
      else if nonempty_target (pr_targetMembershipTiers promo) \<and>
              (\<not> truthy_str membershipTierId \<or>
               the membershipTierId \<notin> set (the (pr_targetMembershipTiers promo)))
      then False
      else True)"

text \<open>
  The filter of the \<open>buy_x_get_y\<close> loop: \<open>!promo.targetProducts ||
  promo.targetProducts.includes(item.productId)\<close>. An array, even an empty one, is truthy.
\<close>

fun eligible_item :: "string list option \<Rightarrow> cart_item \<Rightarrow> bool" where
  "eligible_item None item = True"
| "eligible_item (Some ps) item = (ci_productId item \<in> set ps)"

text \<open>The body of the \<open>buy_x_get_y\<close> loop, adding one item's free value to \<open>discount\<close>.\<close>

fun buy_x_get_y_loop :: "promotion \<Rightarrow> nat \<Rightarrow> nat \<Rightarrow> cart_item list \<Rightarrow> rat \<Rightarrow> rat" where
  "buy_x_get_y_loop promo b g [] discount = discount"
| "buy_x_get_y_loop promo b g (item # rest) discount =
     (if eligible_item (pr_targetProducts promo) item
      then (let sets = ci_quantity item div int (b + g)
            in buy_x_get_y_loop promo b g rest
                 (discount + of_int sets * of_nat g * ci_price item))
      else buy_x_get_y_loop promo b g rest discount)"

text \<open>The \<open>switch\<close> of \<open>calculateDiscount\<close>, before the cap.\<close>

definition discount_by_type :: "promotion \<Rightarrow> cart_item list \<Rightarrow> rat \<Rightarrow> rat" where
  "discount_by_type promo items subtotal =
     (if pr_promotionType promo = ''percentage'' then subtotal * (pr_discountValue promo / 100)
      else if pr_promotionType promo = ''fixed_amount'' then pr_discountValue promo
      else if pr_promotionType promo = ''buy_x_get_y'' then
        (if truthy_nat (pr_buyQuantity promo) \<and> truthy_nat (pr_getQuantity promo)
         then buy_x_get_y_loop promo (the (pr_buyQuantity promo)) (the (pr_getQuantity promo)) items 0
         else 0)
      else 0)"

definition calculateDiscount :: "promotion \<Rightarrow> cart_item list \<Rightarrow> rat \<Rightarrow> rat" where
  "calculateDiscount promo items subtotal =
     (let discount = discount_by_type promo items subtotal
      in if truthy_num (pr_maxDiscountAmount promo) \<and> discount > the (pr_maxDiscountAmount promo)
         then the (pr_maxDiscountAmount promo)
         else discount)"

text \<open>
  The query of \<open>checkApplicable\<close>: the promotions that are active, inside their date window
  at the time \<open>now\<close> and under their usage limit, \<open>ORDER BY priority DESC\<close>. Rows of equal
  priority come back in an order SQL leaves open; the model keeps their table order.
\<close>

definition is_candidate :: "int \<Rightarrow> promotion \<Rightarrow> bool" where
  "is_candidate now p =
     (pr_isActive p \<and> pr_startDate p \<le> now \<and> pr_endDate p \<ge> now \<and>
      (case pr_usageLimit p of None \<Rightarrow> True | Some l \<Rightarrow> pr_currentUsage p < l))"

definition activePromotions :: "int \<Rightarrow> promotion list \<Rightarrow> promotion list" where
  "activePromotions now table = sort_key (\<lambda>p. - pr_priority p) (filter (is_candidate now) table)"

record check_params =
  cp_items :: "cart_item list"
  cp_customerId :: "string option"
  cp_membershipTierId :: "string option"
  cp_couponCode :: "string option"

record check_result =
  applicable :: "promotion list"
  discountAmount :: rat

text \<open>\<open>couponCode && promo.code && promo.code.toUpperCase() === couponCode.toUpperCase()\<close>\<close>

definition coupon_matches :: "string option \<Rightarrow> promotion \<Rightarrow> bool" where
  "coupon_matches couponCode promo =
     (truthy_str couponCode \<and> truthy_str (pr_code promo) \<and>
      toUpperCase (the (pr_code promo)) = toUpperCase (the couponCode))"

text \<open>
  The \<open>for\<close> loop of \<open>checkApplicable\<close> over the query's rows, with \<open>applicable\<close> and
  \<open>totalDiscount\<close> as accumulators; \<open>break\<close> returns them, \<open>continue\<close> goes on with the rest.
\<close>

fun promo_loop ::
  "check_params \<Rightarrow> rat \<Rightarrow> promotion list \<Rightarrow> promotion list \<times> rat \<Rightarrow> promotion list \<times> rat" where
  "promo_loop params subtotal [] acc = acc"
| "promo_loop params subtotal (promo # rest) (appl, totalDiscount) =
     (if coupon_matches (cp_couponCode params) promo then
        (if checkPromotionConditions promo (cp_items params) subtotal
              (cp_customerId params) (cp_membershipTierId params)
         then (if \<not> pr_isStackable promo
               then (appl @ [promo], totalDiscount + calculateDiscount promo (cp_items params) subtotal)
               else promo_loop params subtotal rest
                      (appl @ [promo], totalDiscount + calculateDiscount promo (cp_items params) subtotal))
         else promo_loop params subtotal rest (appl, totalDiscount))
      else if \<not> truthy_str (pr_code promo) then
        (if checkPromotionConditions promo (cp_items params) subtotal
              (cp_customerId params) (cp_membershipTierId params)
         then (if \<not> pr_isStackable promo
               then (appl @ [promo], totalDiscount + calculateDiscount promo (cp_items params) subtotal)
               else promo_loop params subtotal rest
                      (appl @ [promo], totalDiscount + calculateDiscount promo (cp_items params) subtotal))
         else promo_loop params subtotal rest (appl, totalDiscount))
      else promo_loop params subtotal rest (appl, totalDiscount))"

text \<open>\<open>items.reduce((sum, item) => sum + item.price * item.quantity, 0)\<close>\<close>

definition cart_subtotal :: "cart_item list \<Rightarrow> rat" where
  "cart_subtotal items = foldl (\<lambda>sum item. sum + ci_price item * of_int (ci_quantity item)) 0 items"

definition checkApplicable :: "int \<Rightarrow> promotion list \<Rightarrow> check_params \<Rightarrow> check_result" where
  "checkApplicable now table params =
     (case promo_loop params (cart_subtotal (cp_items params)) (activePromotions now table) ([], 0) of
        (appl, totalDiscount) \<Rightarrow> \<lparr>applicable = appl, discountAmount = totalDiscount\<rparr>)"

section \<open>Sale transaction engine (sale.service.ts)\<close>

subsection \<open>Errors (AppError.ts)\<close>

text \<open>
  The error classes the engine can throw. \<open>NotFoundError\<close> carries the \<open>resource\<close> it is
  constructed with; \<open>InternalError\<close> stands for every exception that is not an
  \<open>AppError\<close> (a constraint violation raised by the database, a \<open>TypeError\<close>), which
  the error handler answers with status 500.
\<close>

datatype app_error =
    BadRequestError string
  | UnauthorizedError string
  | ForbiddenError string
  | NotFoundError string
  | InternalError string

fun statusCode :: "app_error \<Rightarrow> nat" where
  "statusCode (BadRequestError m) = 400"
| "statusCode (UnauthorizedError m) = 401"
| "statusCode (ForbiddenError m) = 403"
| "statusCode (NotFoundError r) = 404"
| "statusCode (InternalError m) = 500"


subsection \<open>Tables\<close>

text \<open>
  The columns the engine reads or writes. \<open>p_deleted\<close> stands for \<open>deleted_at IS NOT
  NULL\<close>. A sale's identifier, a UUID the database generates, is modelled as the position
  of the row in the \<open>sales\<close> table, from which no row is ever deleted. The operator's id
  comes from the authenticated session and is taken to name an existing user, as the
  foreign keys on \<open>user_id\<close>, \<open>created_by\<close>, \<open>voided_by\<close> and \<open>refunded_by\<close> require;
  the foreign key on \<open>variant_id\<close> and the lengths of the VARCHAR columns are not modelled.
\<close>

record product =
  p_name :: string
  p_sku :: string
  p_selling_price :: rat
  p_cost_price :: rat
  p_current_stock :: int
  p_track_inventory :: bool
  p_is_taxable :: bool
  p_tax_rate :: rat
  p_deleted :: bool

record customer =
  c_loyalty_points :: int
  c_lifetime_spend :: rat
  c_total_transactions :: int
  c_membership_tier_id :: "string option"

text \<open>
  The columns of a row of \<open>users\<close> that the supervisor checks of the repository are
  concerned with: the hashed PIN, which the table keeps in the column \<open>supervisor_pin\<close>,
  the two capabilities and the status of the account.
\<close>

record user_row =
  u_supervisor_pin :: "string option"
  u_can_authorize_void :: bool
  u_can_authorize_refund :: bool
  u_status :: string

text \<open>
  The columns of the table \<open>users\<close> (migration 003_users.sql). There is no column
  \<open>supervisor_pin_hash\<close>, in this migration or in any other.
\<close>

definition users_columns :: "string list" where
  "users_columns =
     [''id'', ''username'', ''email'', ''password_hash'', ''supervisor_pin'', ''first_name'',
      ''last_name'', ''phone'', ''avatar_url'', ''role_id'', ''status'', ''can_authorize_void'',
      ''can_authorize_refund'', ''last_login_at'', ''failed_login_attempts'', ''locked_until'',
      ''password_changed_at'', ''created_by'', ''created_at'', ''updated_at'', ''deleted_at'']"

text \<open>
  The text columns of a row that the model keeps, by name. A field that the row does not
  have reads as \<open>undefined\<close>.
\<close>

definition text_column :: "user_row \<Rightarrow> string \<Rightarrow> string option" where
  "text_column u c =
     (if c = ''supervisor_pin'' then u_supervisor_pin u
      else if c = ''status'' then Some (u_status u)
      else None)"

datatype payment_method = Cash | Card | Gcash | Maya | Split

record sale_row =
  s_customer_id :: "string option"
  s_user_id :: string
  s_subtotal :: rat
  s_discount_amount :: rat
  s_tax_amount :: rat
  s_total_amount :: rat
  s_payment_method :: payment_method
  s_amount_tendered :: "rat option"
  s_change_amount :: "rat option"
  s_discount_type :: "string option"
  s_is_vat_exempt :: bool
  s_vat_exempt_reason :: "string option"
  s_vatable_amount :: rat
  s_vat_amount :: rat
  s_vat_exempt_amount :: rat
  s_points_earned :: int
  s_points_redeemed :: int
  s_points_value_redeemed :: rat
  s_notes :: "string option"
  s_status :: string
  s_voided_by :: "string option"
  s_void_authorized_by :: "string option"
  s_void_reason :: "string option"
  s_refunded_by :: "string option"
  s_refund_authorized_by :: "string option"
  s_refund_reason :: "string option"
  s_refund_amount :: rat

text \<open>An element of \<open>itemsData\<close>, which becomes a row of \<open>sale_items\<close>.\<close>

record item_data =
  i_productId :: string
  i_variantId :: "string option"
  i_productName :: string
  i_productSku :: string
  i_quantity :: int
  i_unitPrice :: rat
  i_costPrice :: rat
  i_discountAmount :: rat
  i_discountType :: "string option"
  i_discountPercentage :: "rat option"
  i_isVatExempt :: bool
  i_taxAmount :: rat
  i_subtotal :: rat
  i_totalPrice :: rat

record sale_item_row =
  sir_sale_id :: nat
  sir_item :: item_data

record stock_movement =
  sm_product_id :: string
  sm_movement_type :: string
  sm_quantity :: int
  sm_quantity_before :: int
  sm_quantity_after :: int
  sm_reference_type :: string
  sm_reference_id :: "nat option"
  sm_notes :: "string option"
  sm_created_by :: string

record sale_payment_row =
  sp_sale_id :: nat
  sp_payment_method :: string
  sp_amount :: rat
  sp_reference_number :: "string option"

record sale_discount_row =
  sd_sale_id :: nat
  sd_discount_type :: string
  sd_discount_name :: string
  sd_discount_amount :: rat
  sd_is_government_mandated :: bool
  sd_customer_id_number :: "string option"

record loyalty_history_row =
  lh_customer_id :: string
  lh_transaction_type :: string
  lh_points :: int
  lh_balance_after :: int
  lh_reference_id :: nat
  lh_description :: string
  lh_created_by :: string

record db =
  db_products :: "string \<rightharpoonup> product"
  db_customers :: "string \<rightharpoonup> customer"
  db_membership_tiers :: "string \<rightharpoonup> membership_tier"
  db_users :: "string \<rightharpoonup> user_row"
  db_sales :: "sale_row list"
  db_sale_items :: "sale_item_row list"
  db_stock_movements :: "stock_movement list"
  db_sale_payments :: "sale_payment_row list"
  db_sale_discounts :: "sale_discount_row list"
  db_loyalty_points_history :: "loyalty_history_row list"

subsection \<open>Requests\<close>

record sale_item =
  si_productId :: string
  si_variantId :: "string option"
  si_quantity :: int
  si_unitPrice :: "rat option"
  si_discountAmount :: "rat option"
  si_discountType :: "string option"
  si_discountPercentage :: "rat option"

record payment =
  pay_method :: string
  pay_amount :: rat
  pay_reference :: "string option"

record create_sale_data =
  d_customerId :: "string option"
  d_items :: "sale_item list"
  d_paymentMethod :: payment_method
  d_amountTendered :: "rat option"
  d_payments :: "payment list option"
  d_discountType :: "string option"
  d_discountAmount :: "rat option"
  d_isVatExempt :: bool
  d_vatExemptReason :: "string option"
  d_customerIdNumber :: "string option"
  d_pointsToRedeem :: "int option"
  d_notes :: "string option"

text \<open>What \<open>getById\<close> returns: the sale and its items.\<close>

record sale_view =
  sv_id :: nat
  sv_sale :: sale_row
  sv_items :: "item_data list"

subsection \<open>getById\<close>

definition getById :: "nat \<Rightarrow> db \<Rightarrow> app_error + sale_view" where
  "getById saleId s =
     (if saleId < length (db_sales s)
      then Inr \<lparr>sv_id = saleId, sv_sale = db_sales s ! saleId,
                sv_items = map sir_item (filter (\<lambda>r. sir_sale_id r = saleId) (db_sale_items s))\<rparr>
      else Inl (NotFoundError ''Sale not found''))"

subsection \<open>create\<close>

text \<open>
  One element of \<open>itemsData\<close>: the unit price, subtotal, discount, tax and total of a
  cart line, computed from the product row the loop has read for it.
\<close>

definition item_row :: "create_sale_data \<Rightarrow> product \<Rightarrow> sale_item \<Rightarrow> item_data" where
  "item_row data product item =
     (let unitPrice = num_or (si_unitPrice item) (p_selling_price product);
          itemSubtotal = unitPrice * of_int (si_quantity item);
          itemDiscount = num_or (si_discountAmount item) 0;
          itemTax = (if p_is_taxable product \<and> \<not> d_isVatExempt data
                     then (itemSubtotal - itemDiscount) * (p_tax_rate product / 100)
                     else 0);
          itemTotal = itemSubtotal - itemDiscount + itemTax
      in \<lparr>i_productId = si_productId item,
          i_variantId = str_or_null (si_variantId item),
          i_productName = p_name product,
          i_productSku = p_sku product,
          i_quantity = si_quantity item,
          i_unitPrice = unitPrice,
          i_costPrice = p_cost_price product,
          i_discountAmount = itemDiscount,
          i_discountType = str_or_null (si_discountType item),
          i_discountPercentage =
            (if truthy_num (si_discountPercentage item) then si_discountPercentage item else None),
          i_isVatExempt = d_isVatExempt data,
          i_taxAmount = itemTax,
          i_subtotal = itemSubtotal,
          i_totalPrice = itemTotal\<rparr>)"

text \<open>
  The block \<open>if (product.track_inventory)\<close> of the loop: the stock is deducted and the
  movement recorded, with the stock the loop has read as \<open>quantity_before\<close>.
\<close>

definition deduct_stock :: "string \<Rightarrow> product \<Rightarrow> sale_item \<Rightarrow> db \<Rightarrow> db" where
  "deduct_stock userId product item s =
     (if p_track_inventory product
      then s\<lparr>db_products := (db_products s)(si_productId item \<mapsto>
                product\<lparr>p_current_stock := p_current_stock product - si_quantity item\<rparr>),
             db_stock_movements := db_stock_movements s @
               [\<lparr>sm_product_id = si_productId item,
                 sm_movement_type = ''sale'',
                 sm_quantity = - si_quantity item,
                 sm_quantity_before = p_current_stock product,
                 sm_quantity_after = p_current_stock product - si_quantity item,
                 sm_reference_type = ''sale'',
                 sm_reference_id = None,
                 sm_notes = None,
                 sm_created_by = userId\<rparr>]\<rparr>
      else s)"

text \<open>
  The body of the loop over \<open>data.items\<close>. The accumulator holds \<open>subtotal\<close>, \<open>totalTax\<close>
  and \<open>itemsData\<close>; the state holds the stock already deducted for the lines before. The
  product is read with \<open>WHERE id = $1 AND deleted_at IS NULL\<close>.
\<close>

definition process_item ::
  "create_sale_data \<Rightarrow> string \<Rightarrow> sale_item \<Rightarrow> (rat \<times> rat \<times> item_data list) \<times> db \<Rightarrow>
   app_error + ((rat \<times> rat \<times> item_data list) \<times> db)" where
  "process_item data userId item st =
     (case st of ((subtotal, totalTax, itemsData), s) \<Rightarrow>
       (case db_products s (si_productId item) of
          None \<Rightarrow> Inl (BadRequestError (''Product not found: '' @ si_productId item))
        | Some product \<Rightarrow>
            if p_deleted product
            then Inl (BadRequestError (''Product not found: '' @ si_productId item))
            else if p_track_inventory product \<and> p_current_stock product < si_quantity item
            then Inl (BadRequestError (''Insufficient stock for '' @ p_name product @
                        ''. Available: '' @ show_int (p_current_stock product)))
            else
              (let row = item_row data product item
               in Inr ((subtotal + i_subtotal row, totalTax + i_taxAmount row, itemsData @ [row]),
                       deduct_stock userId product item s))))"

fun process_items ::
  "create_sale_data \<Rightarrow> string \<Rightarrow> sale_item list \<Rightarrow> (rat \<times> rat \<times> item_data list) \<times> db \<Rightarrow>
   app_error + ((rat \<times> rat \<times> item_data list) \<times> db)" where
  "process_items data userId [] st = Inr st"
| "process_items data userId (item # rest) st =
     (case process_item data userId item st of
        Inl e \<Rightarrow> Inl e
      | Inr st' \<Rightarrow> process_items data userId rest st')"

text \<open>
  The multiplier read by \<open>SELECT c.loyalty_points, mt.points_multiplier FROM customers c
  LEFT JOIN membership_tiers mt ...\<close> and \<open>parseFloat(points_multiplier || "1")\<close>: a DECIMAL
  comes back as a string, which is falsy only when the column is NULL.
\<close>

definition points_multiplier :: "db \<Rightarrow> customer \<Rightarrow> rat" where
  "points_multiplier s c =
     (case c_membership_tier_id c of
        None \<Rightarrow> 1
      | Some tid \<Rightarrow>
          (case db_membership_tiers s tid of
             None \<Rightarrow> 1
           | Some tier \<Rightarrow> (case mt_points_multiplier tier of None \<Rightarrow> 1 | Some m \<Rightarrow> m)))"

text \<open>
  The loyalty step of \<open>create\<close>: it yields \<open>pointsEarned\<close> and \<open>pointsValue\<close>, or the
  insufficient-points error.
\<close>

definition loyalty_step :: "create_sale_data \<Rightarrow> db \<Rightarrow> rat \<Rightarrow> int \<Rightarrow> app_error + (int \<times> rat)" where
  "loyalty_step data s totalAmount pointsRedeemed =
     (if truthy_str (d_customerId data) then
        (case db_customers s (the (d_customerId data)) of
           None \<Rightarrow> Inr (0, 0)
         | Some c \<Rightarrow>
             (let pointsEarned = \<lfloor>(totalAmount / 100) * points_multiplier s c\<rfloor>
              in if pointsRedeemed > 0
                 then (if pointsRedeemed > c_loyalty_points c
                       then Inl (BadRequestError (''Insufficient points. Available: '' @
                                   show_int (c_loyalty_points c)))
                       else Inr (pointsEarned, of_int pointsRedeemed))
                 else Inr (pointsEarned, 0)))
      else Inr (0, 0))"

text \<open>The row of the \<open>INSERT INTO sales\<close>; the status column takes its default.\<close>

definition new_sale ::
  "create_sale_data \<Rightarrow> string \<Rightarrow> rat \<Rightarrow> rat \<Rightarrow> int \<Rightarrow> rat \<Rightarrow> sale_row" where
  "new_sale data userId subtotal totalTax pointsEarned pointsValue =
     (let totalDiscount = num_or (d_discountAmount data) 0;
          totalAmount = subtotal - totalDiscount + totalTax;
          changeAmount = (if truthy_num (d_amountTendered data)
                          then the (d_amountTendered data) - totalAmount else 0);
          pointsRedeemed = int_or (d_pointsToRedeem data) 0
      in \<lparr>s_customer_id = str_or_null (d_customerId data),
          s_user_id = userId,
          s_subtotal = subtotal,
          s_discount_amount = totalDiscount,
          s_tax_amount = totalTax,
          s_total_amount = totalAmount - pointsValue,
          s_payment_method = d_paymentMethod data,
          s_amount_tendered = (if truthy_num (d_amountTendered data)
                               then d_amountTendered data else None),
          s_change_amount = (if changeAmount > 0 then Some changeAmount else None),
          s_discount_type = str_or_null (d_discountType data),
          s_is_vat_exempt = d_isVatExempt data,
          s_vat_exempt_reason = str_or_null (d_vatExemptReason data),
          s_vatable_amount = (if d_isVatExempt data then 0 else subtotal - totalDiscount),
          s_vat_amount = totalTax,
          s_vat_exempt_amount = (if d_isVatExempt data then subtotal - totalDiscount else 0),
          s_points_earned = pointsEarned,
          s_points_redeemed = pointsRedeemed,
          s_points_value_redeemed = pointsValue,
          s_notes = str_or_null (d_notes data),
          s_status = ''completed'',
          s_voided_by = None,
          s_void_authorized_by = None,
          s_void_reason = None,
          s_refunded_by = None,
          s_refund_authorized_by = None,
          s_refund_reason = None,
          s_refund_amount = 0\<rparr>)"

text \<open>
  The inserts of the split payments. The check constraint of \<open>sale_payments\<close> on the
  payment method rejects any other method.
\<close>

fun insert_payments :: "nat \<Rightarrow> payment list \<Rightarrow> db \<Rightarrow> app_error + db" where
  "insert_payments saleId [] s = Inr s"
| "insert_payments saleId (p # ps) s =
     (if pay_method p \<in> set [''cash'', ''card'', ''gcash'', ''maya'', ''bank_transfer'', ''credit'']
      then insert_payments saleId ps
             (s\<lparr>db_sale_payments := db_sale_payments s @
                  [\<lparr>sp_sale_id = saleId, sp_payment_method = pay_method p,
                    sp_amount = pay_amount p,
                    sp_reference_number = str_or_null (pay_reference p)\<rparr>]\<rparr>)
      else Inl (InternalError ''violates check constraint on sale_payments.payment_method''))"

definition split_payments_step :: "create_sale_data \<Rightarrow> nat \<Rightarrow> db \<Rightarrow> app_error + db" where
  "split_payments_step data saleId s =
     (case d_payments data of
        Some ps \<Rightarrow> if d_paymentMethod data = Split then insert_payments saleId ps s else Inr s
      | None \<Rightarrow> Inr s)"

text \<open>The row of \<open>sale_discounts\<close> for a government-mandated discount.\<close>

definition government_discount_step :: "create_sale_data \<Rightarrow> nat \<Rightarrow> rat \<Rightarrow> db \<Rightarrow> db" where
  "government_discount_step data saleId totalDiscount s =
     (if d_isVatExempt data \<and> truthy_str (d_vatExemptReason data)
      then s\<lparr>db_sale_discounts := db_sale_discounts s @
               [\<lparr>sd_sale_id = saleId,
                 sd_discount_type = the (d_vatExemptReason data),
                 sd_discount_name =
                   toUpperCase (replace_first_underscore (the (d_vatExemptReason data))),
                 sd_discount_amount = totalDiscount,
                 sd_is_government_mandated = True,
                 sd_customer_id_number = str_or_null (d_customerIdNumber data)\<rparr>]\<rparr>
      else s)"

text \<open>
  The update of the customer's statistics and points, and the rows of the points history,
  whose \<open>balance_after\<close> is the balance the update has left.
\<close>

definition customer_step ::
  "create_sale_data \<Rightarrow> string \<Rightarrow> nat \<Rightarrow> int \<Rightarrow> int \<Rightarrow> rat \<Rightarrow> db \<Rightarrow> db" where
  "customer_step data userId saleId pointsEarned pointsRedeemed totalAmount s =
     (if truthy_str (d_customerId data) then
        (case db_customers s (the (d_customerId data)) of
           None \<Rightarrow> s
         | Some c \<Rightarrow>
             (let cid = the (d_customerId data);
                  balance = c_loyalty_points c + pointsEarned - pointsRedeemed;
                  c' = c\<lparr>c_loyalty_points := balance,
                         c_lifetime_spend := c_lifetime_spend c + totalAmount,
                         c_total_transactions := c_total_transactions c + 1\<rparr>;
                  earn = (if pointsEarned > 0
                          then [\<lparr>lh_customer_id = cid, lh_transaction_type = ''earn'',
                                  lh_points = pointsEarned, lh_balance_after = balance,
                                  lh_reference_id = saleId,
                                  lh_description = ''Points earned from purchase'',
                                  lh_created_by = userId\<rparr>]
                          else []);
                  redeem = (if pointsRedeemed > 0
                            then [\<lparr>lh_customer_id = cid, lh_transaction_type = ''redeem'',
                                    lh_points = - pointsRedeemed, lh_balance_after = balance,
                                    lh_reference_id = saleId,
                                    lh_description = ''Points redeemed for purchase'',
                                    lh_created_by = userId\<rparr>]
                            else [])
              in s\<lparr>db_customers := (db_customers s)(cid \<mapsto> c'),
                   db_loyalty_points_history := db_loyalty_points_history s @ earn @ redeem\<rparr>))
      else s)"

text \<open>
  The statements of \<open>create\<close> between \<open>BEGIN\<close> and \<open>COMMIT\<close>. The insert into \<open>sales\<close>
  violates the foreign key on \<open>customer_id\<close> when the customer supplied does not exist.
\<close>

definition create_body :: "create_sale_data \<Rightarrow> string \<Rightarrow> db \<Rightarrow> app_error + (nat \<times> db)" where
  "create_body data userId s =
     (case process_items data userId (d_items data) ((0, 0, []), s) of
        Inl e \<Rightarrow> Inl e
      | Inr ((subtotal, totalTax, itemsData), s1) \<Rightarrow>
          (let totalDiscount = num_or (d_discountAmount data) 0;
               totalAmount = subtotal - totalDiscount + totalTax;
               pointsRedeemed = int_or (d_pointsToRedeem data) 0
           in case loyalty_step data s1 totalAmount pointsRedeemed of
                Inl e \<Rightarrow> Inl e
              | Inr (pointsEarned, pointsValue) \<Rightarrow>
                  if truthy_str (d_customerId data) \<and>
                     db_customers s1 (the (d_customerId data)) = None
                  then Inl (InternalError ''violates foreign key constraint on sales.customer_id'')
                  else
                    (let saleId = length (db_sales s1);
                         s2 = s1\<lparr>db_sales := db_sales s1 @
                                  [new_sale data userId subtotal totalTax pointsEarned pointsValue],
                                 db_sale_items := db_sale_items s1 @
                                  map (\<lambda>item. \<lparr>sir_sale_id = saleId, sir_item = item\<rparr>) itemsData\<rparr>
                     in case split_payments_step data saleId s2 of
                          Inl e \<Rightarrow> Inl e
                        | Inr s3 \<Rightarrow>
                            Inr (saleId,
                                 customer_step data userId saleId pointsEarned pointsRedeemed
                                   totalAmount
                                   (government_discount_step data saleId totalDiscount s3)))))"

text \<open>
  \<open>create\<close>: on an exception the transaction is rolled back and the exception rethrown,
  otherwise it is committed and the sale read back.
\<close>

definition create :: "create_sale_data \<Rightarrow> string \<Rightarrow> db \<Rightarrow> (app_error + sale_view) \<times> db" where
  "create data userId s =
     (case create_body data userId s of
        Inl e \<Rightarrow> (Inl e, s)
      | Inr (saleId, s') \<Rightarrow> (getById saleId s', s'))"

subsection \<open>Void and refund\<close>

datatype reversal = Void | Refund

text \<open>
  \<open>SELECT <columns> FROM users WHERE id = $1\<close>. The database rejects a statement that names
  a column the table does not have when the statement is prepared, before it looks at the
  parameter; the exception it raises is not an \<open>AppError\<close>.
\<close>

definition select_users :: "string list \<Rightarrow> string \<Rightarrow> db \<Rightarrow> app_error + user_row option" where
  "select_users cols userId s =
     (case filter (\<lambda>c. c \<notin> set users_columns) cols of
        c # cs \<Rightarrow> Inl (InternalError (''column '' @ c @ '' does not exist''))
      | [] \<Rightarrow> Inr (db_users s userId))"

text \<open>
  The supervisor check at the head of \<open>voidSale\<close> and \<open>refundSale\<close>, which differ in the
  capability they read and in their message. \<open>bcrypt.compare\<close> is a parameter. The query
  selects \<open>supervisor_pin_hash\<close>.
\<close>

definition verify_supervisor ::
  "(string \<Rightarrow> string \<Rightarrow> bool) \<Rightarrow> reversal \<Rightarrow> string \<Rightarrow> string \<Rightarrow> db \<Rightarrow> app_error + unit" where
  "verify_supervisor bcrypt_compare kind supervisorId supervisorPin s =
     (case select_users
             [''supervisor_pin_hash'',
              (case kind of Void \<Rightarrow> ''can_authorize_void'' | Refund \<Rightarrow> ''can_authorize_refund'')]
             supervisorId s of
        Inl e \<Rightarrow> Inl e
      | Inr None \<Rightarrow> Inl (NotFoundError ''Supervisor not found'')
      | Inr (Some supervisor) \<Rightarrow>
          if \<not> (case kind of Void \<Rightarrow> u_can_authorize_void supervisor
                            | Refund \<Rightarrow> u_can_authorize_refund supervisor)
          then Inl (ForbiddenError (case kind of
                       Void \<Rightarrow> ''User not authorized to approve voids''
                     | Refund \<Rightarrow> ''User not authorized to approve refunds''))
          else if \<not> truthy_str (text_column supervisor ''supervisor_pin_hash'')
          then Inl (BadRequestError ''Supervisor PIN not set'')
          else if \<not> bcrypt_compare supervisorPin
                       (the (text_column supervisor ''supervisor_pin_hash''))
          then Inl (BadRequestError ''Invalid supervisor PIN'')
          else Inr ())"

text \<open>
  The loop that restores the stock of the rows \<open>SELECT product_id, quantity FROM sale_items
  WHERE sale_id = $1\<close>. Reading \<open>stockResult.rows[0]\<close> of a product that does not exist
  is a \<open>TypeError\<close>.
\<close>

fun restore_stock ::
  "reversal \<Rightarrow> nat \<Rightarrow> string \<Rightarrow> string \<Rightarrow> item_data list \<Rightarrow> db \<Rightarrow> app_error + db" where
  "restore_stock kind saleId reason actor [] s = Inr s"
| "restore_stock kind saleId reason actor (item # rest) s =
     (case db_products s (i_productId item) of
        None \<Rightarrow> Inl (InternalError ''Cannot read properties of undefined'')
      | Some product \<Rightarrow>
          (let stock = p_current_stock product + i_quantity item
           in restore_stock kind saleId reason actor rest
                (s\<lparr>db_products := (db_products s)(i_productId item \<mapsto>
                       product\<lparr>p_current_stock := stock\<rparr>),
                   db_stock_movements := db_stock_movements s @
                     [\<lparr>sm_product_id = i_productId item,
                       sm_movement_type = ''return'',
                       sm_quantity = i_quantity item,
                       sm_quantity_before = stock - i_quantity item,
                       sm_quantity_after = stock,
                       sm_reference_type = (case kind of Void \<Rightarrow> ''void'' | Refund \<Rightarrow> ''refund''),
                       sm_reference_id = Some saleId,
                       sm_notes = Some ((case kind of Void \<Rightarrow> ''Void: '' | Refund \<Rightarrow> ''Refund: '')
                                        @ reason),
                       sm_created_by = actor\<rparr>]\<rparr>)))"

text \<open>\<open>UPDATE customers SET loyalty_points = loyalty_points - $1 + $2, ...\<close>\<close>

definition reverse_customer :: "sale_row \<Rightarrow> db \<Rightarrow> db" where
  "reverse_customer sale s =
     (if truthy_str (s_customer_id sale) then
        (case db_customers s (the (s_customer_id sale)) of
           None \<Rightarrow> s
         | Some c \<Rightarrow>
             s\<lparr>db_customers := (db_customers s)(the (s_customer_id sale) \<mapsto>
                  c\<lparr>c_loyalty_points :=
                      c_loyalty_points c - s_points_earned sale + s_points_redeemed sale,
                    c_lifetime_spend := c_lifetime_spend c - s_total_amount sale,
                    c_total_transactions := c_total_transactions c - 1\<rparr>)\<rparr>)
      else s)"

text \<open>The update of the sale's status and audit columns.\<close>

definition mark_sale :: "reversal \<Rightarrow> string \<Rightarrow> string \<Rightarrow> string \<Rightarrow> sale_row \<Rightarrow> sale_row" where
  "mark_sale kind reason actor authorizer sale =
     (case kind of
        Void \<Rightarrow> sale\<lparr>s_status := ''voided'', s_voided_by := Some actor,
                      s_void_authorized_by := Some authorizer, s_void_reason := Some reason\<rparr>
      | Refund \<Rightarrow> sale\<lparr>s_status := ''refunded'', s_refunded_by := Some actor,
                        s_refund_authorized_by := Some authorizer,
                        s_refund_reason := Some reason,
                        s_refund_amount := s_total_amount sale\<rparr>)"

text \<open>
  The statements the four operations share after the supervisor check: reading the sale,
  the status guard, the status update, the stock loop and the customer update.
\<close>

definition reverse_sale ::
  "reversal \<Rightarrow> nat \<Rightarrow> string \<Rightarrow> string \<Rightarrow> string \<Rightarrow> db \<Rightarrow> app_error + db" where
  "reverse_sale kind saleId reason actor authorizer s =
     (if \<not> saleId < length (db_sales s) then Inl (NotFoundError ''Sale not found'')
      else
        (let sale = db_sales s ! saleId
         in if s_status sale \<noteq> ''completed''
            then Inl (BadRequestError
                        ((case kind of Void \<Rightarrow> ''Cannot void a '' | Refund \<Rightarrow> ''Cannot refund a '')
                         @ s_status sale @ '' sale''))
            else
              (let s1 = s\<lparr>db_sales := (db_sales s)[saleId := mark_sale kind reason actor authorizer sale]\<rparr>
               in case restore_stock kind saleId reason actor
                         (map sir_item (filter (\<lambda>r. sir_sale_id r = saleId) (db_sale_items s1))) s1 of
                    Inl e \<Rightarrow> Inl e
                  | Inr s2 \<Rightarrow> Inr (reverse_customer sale s2))))"

definition voidSale ::
  "(string \<Rightarrow> string \<Rightarrow> bool) \<Rightarrow> nat \<Rightarrow> string \<Rightarrow> string \<Rightarrow> string \<Rightarrow> string \<Rightarrow> db \<Rightarrow>
   (app_error + sale_view) \<times> db" where
  "voidSale bcrypt_compare saleId reason supervisorId supervisorPin voidedBy s =
     (case verify_supervisor bcrypt_compare Void supervisorId supervisorPin s of
        Inl e \<Rightarrow> (Inl e, s)
      | Inr u \<Rightarrow>
          (case reverse_sale Void saleId reason voidedBy supervisorId s of
             Inl e \<Rightarrow> (Inl e, s)
           | Inr s' \<Rightarrow> (getById saleId s', s')))"

definition voidSaleSelfAuthorized ::
  "nat \<Rightarrow> string \<Rightarrow> string \<Rightarrow> db \<Rightarrow> (app_error + sale_view) \<times> db" where
  "voidSaleSelfAuthorized saleId reason voidedBy s =
     (case reverse_sale Void saleId reason voidedBy voidedBy s of
        Inl e \<Rightarrow> (Inl e, s)
      | Inr s' \<Rightarrow> (getById saleId s', s'))"

definition refundSale ::
  "(string \<Rightarrow> string \<Rightarrow> bool) \<Rightarrow> nat \<Rightarrow> string \<Rightarrow> string \<Rightarrow> string \<Rightarrow> string \<Rightarrow> db \<Rightarrow>
   (app_error + sale_view) \<times> db" where
  "refundSale bcrypt_compare saleId reason supervisorId supervisorPin refundedBy s =
     (case verify_supervisor bcrypt_compare Refund supervisorId supervisorPin s of
        Inl e \<Rightarrow> (Inl e, s)
      | Inr u \<Rightarrow>
          (case reverse_sale Refund saleId reason refundedBy supervisorId s of
             Inl e \<Rightarrow> (Inl e, s)
           | Inr s' \<Rightarrow> (getById saleId s', s')))"


section \<open>Notions used to state the properties, and concrete inputs\<close>

subsection \<open>Notions\<close>

text \<open>
  A promotion takes part in an evaluation when it is considered (its code matches the
  supplied coupon, or it has no code) and its conditions hold.
\<close>

definition promo_matches :: "check_params \<Rightarrow> rat \<Rightarrow> promotion \<Rightarrow> bool" where
  "promo_matches params subtotal p =
     ((coupon_matches (cp_couponCode params) p \<or> \<not> truthy_str (pr_code p)) \<and>
      checkPromotionConditions p (cp_items params) subtotal
        (cp_customerId params) (cp_membershipTierId params))"

text \<open>
  Two states list the same products with the same columns, the stock level apart.
\<close>

definition same_catalog :: "db \<Rightarrow> db \<Rightarrow> bool" where
  "same_catalog s s' =
     (\<forall>pid. map_option (\<lambda>p. p\<lparr>p_current_stock := 0\<rparr>) (db_products s' pid) =
            map_option (\<lambda>p. p\<lparr>p_current_stock := 0\<rparr>) (db_products s pid))"

text \<open>
  The element of \<open>itemsData\<close> of a cart line, computed from the product row of the state
  in which \<open>create\<close> is called.
\<close>

definition cart_line :: "create_sale_data \<Rightarrow> db \<Rightarrow> sale_item \<Rightarrow> item_data" where
  "cart_line d s it = item_row d (the (db_products s (si_productId it))) it"






subsection \<open>Concrete inputs of the evaluators\<close>

definition ex_settings :: "discount_setting list" where
  "ex_settings =
     [\<lparr>ds_discount_type = ''pwd'', ds_name = ''PWD Discount'', ds_percentage = 10,
       ds_is_vat_exempt = True, ds_is_active = True\<rparr>,
      \<lparr>ds_discount_type = ''senior_citizen'', ds_name = ''Senior Citizen Discount'',
       ds_percentage = 20, ds_is_vat_exempt = True, ds_is_active = True\<rparr>]"

definition ex_tier :: membership_tier where
  "ex_tier = \<lparr>mt_name = ''Silver'', mt_discount_percentage = 5,
              mt_points_multiplier = Some (5/4), mt_is_active = True\<rparr>"

definition ex_tiers :: "string \<rightharpoonup> membership_tier" where
  "ex_tiers = [''silver'' \<mapsto> ex_tier]"

definition ex_dparams :: discount_params where
  "ex_dparams = \<lparr>dp_subtotal = 1000, dp_customerId = None, dp_isSeniorCitizen = True,
                 dp_isPwd = True, dp_membershipTierId = Some ''silver''\<rparr>"

text \<open>An automatic, non-stackable promotion of priority 10: 5 off.\<close>

definition auto_promo :: promotion where
  "auto_promo = \<lparr>pr_id = ''p1'', pr_code = None, pr_promotionType = ''fixed_amount'',
          pr_discountValue = 5, pr_buyQuantity = None, pr_getQuantity = None,
          pr_minPurchaseAmount = None, pr_maxDiscountAmount = None, pr_usageLimit = None,
          pr_currentUsage = 0, pr_targetType = ''all'', pr_targetProducts = None,
          pr_targetCategories = None, pr_targetCustomers = None,
          pr_targetMembershipTiers = None, pr_startDate = 0, pr_endDate = 100,
          pr_isStackable = False, pr_priority = 10, pr_isActive = True\<rparr>"

text \<open>A coupon promotion of priority 5: 20 off with the code SAVE20.\<close>

definition coupon_promo :: promotion where
  "coupon_promo = auto_promo\<lparr>pr_id := ''p2'', pr_code := Some ''SAVE20'',
                             pr_discountValue := 20, pr_priority := 5\<rparr>"

text \<open>Stackable promotions of priorities 9 and 7, the second one with the code SAVE20.\<close>

definition stack_promo :: promotion where
  "stack_promo = auto_promo\<lparr>pr_id := ''p3'', pr_isStackable := True, pr_discountValue := 3,
                            pr_priority := 9\<rparr>"

definition stack_coupon_promo :: promotion where
  "stack_coupon_promo = coupon_promo\<lparr>pr_id := ''p4'', pr_isStackable := True, pr_priority := 7\<rparr>"

definition low_promo :: promotion where
  "low_promo = auto_promo\<lparr>pr_id := ''p5'', pr_priority := 1, pr_discountValue := 50\<rparr>"

definition coupon_cart :: check_params where
  "coupon_cart =
     \<lparr>cp_items = [\<lparr>ci_productId = ''a'', ci_categoryId = None, ci_quantity = 2, ci_price = 100\<rparr>],
      cp_customerId = None, cp_membershipTierId = None, cp_couponCode = Some ''save20''\<rparr>"

definition capped_promo :: promotion where
  "capped_promo = auto_promo\<lparr>pr_promotionType := ''percentage'', pr_discountValue := 10,
                             pr_maxDiscountAmount := Some 0\<rparr>"

definition b2g1_promo :: promotion where
  "b2g1_promo = auto_promo\<lparr>pr_promotionType := ''buy_x_get_y'', pr_buyQuantity := Some 2,
                           pr_getQuantity := Some 1, pr_targetProducts := Some [''a''],
                           pr_maxDiscountAmount := Some 150\<rparr>"

definition b2g1_cart :: "cart_item list" where
  "b2g1_cart = [\<lparr>ci_productId = ''a'', ci_categoryId = None, ci_quantity = 7, ci_price = 100\<rparr>,
                \<lparr>ci_productId = ''b'', ci_categoryId = None, ci_quantity = 3, ci_price = 40\<rparr>]"

subsection \<open>Concrete states and requests of the engine\<close>

text \<open>
  A catalogue of three products: a tracked and taxable one with 10 in stock, an untracked
  and untaxed service, and a tracked one with 2 in stock.
\<close>

definition ex_soap :: product where
  "ex_soap = \<lparr>p_name = ''Soap'', p_sku = ''SKU-1'', p_selling_price = 100, p_cost_price = 60,
              p_current_stock = 10, p_track_inventory = True, p_is_taxable = True,
              p_tax_rate = 12, p_deleted = False\<rparr>"

definition ex_service :: product where
  "ex_service = \<lparr>p_name = ''Gift wrapping'', p_sku = ''SKU-2'', p_selling_price = 50,
                 p_cost_price = 5, p_current_stock = 10, p_track_inventory = False,
                 p_is_taxable = False, p_tax_rate = 12, p_deleted = False\<rparr>"

definition ex_rice :: product where
  "ex_rice = ex_soap\<lparr>p_name := ''Rice'', p_sku := ''SKU-3'', p_current_stock := 2\<rparr>"

text \<open>
  A customer with 500 points, no tier; a supervisor who may authorize voids and refunds,
  whose PIN is 1234 and whose account is inactive.
\<close>

definition ex_customer :: customer where
  "ex_customer = \<lparr>c_loyalty_points = 500, c_lifetime_spend = 1000, c_total_transactions = 4,
                  c_membership_tier_id = None\<rparr>"

definition ex_supervisor :: user_row where
  "ex_supervisor = \<lparr>u_supervisor_pin = Some ''hash:1234'', u_can_authorize_void = True,
                    u_can_authorize_refund = True, u_status = ''inactive''\<rparr>"


definition ex_db :: db where
  "ex_db = \<lparr>db_products = [''p1'' \<mapsto> ex_soap, ''p2'' \<mapsto> ex_service, ''p3'' \<mapsto> ex_rice],
            db_customers = [''c1'' \<mapsto> ex_customer],
            db_membership_tiers = Map.empty,
            db_users = [''sup'' \<mapsto> ex_supervisor],
            db_sales = [], db_sale_items = [], db_stock_movements = [],
            db_sale_payments = [], db_sale_discounts = [], db_loyalty_points_history = []\<rparr>"

text \<open>
  A cart line with a product and a quantity only.
\<close>

definition line :: "string \<Rightarrow> int \<Rightarrow> sale_item" where
  "line pid qty = \<lparr>si_productId = pid, si_variantId = None, si_quantity = qty,
                   si_unitPrice = None, si_discountAmount = None, si_discountType = None,
                   si_discountPercentage = None\<rparr>"

text \<open>
  A cash sale of two units of the first product, 300 tendered, no customer.
\<close>

definition ex_data :: create_sale_data where
  "ex_data = \<lparr>d_customerId = None, d_items = [line ''p1'' 2], d_paymentMethod = Cash,
              d_amountTendered = Some 300, d_payments = None, d_discountType = None,
              d_discountAmount = None, d_isVatExempt = False, d_vatExemptReason = None,
              d_customerIdNumber = None, d_pointsToRedeem = None, d_notes = None\<rparr>"







text \<open>
  Three services sold to the customer, who redeems 50 points; the states after this sale
  and after its void by a manager.
\<close>

definition service_sale :: create_sale_data where
  "service_sale = ex_data\<lparr>d_customerId := Some ''c1'', d_items := [line ''p2'' 3],
                           d_pointsToRedeem := Some 50\<rparr>"

definition after_sale :: db where
  "after_sale = snd (create service_sale ''cashier'' ex_db)"

definition after_void :: db where
  "after_void = snd (voidSaleSelfAuthorized 0 ''mistake'' ''manager'' after_sale)"

section \<open>Properties of the discount evaluator\<close>

lemma government_step_length:
  "government_step settings params = (gov, vat, applied) \<Longrightarrow> length applied \<le> 1"
  by (auto simp: government_step_def split: if_splits option.splits)

lemma applied_gov_part:
  "government_step settings params = (gov, vat, applied) \<Longrightarrow>
   filter (\<lambda>a. ad_type a = ''senior_citizen'' \<or> ad_type a = ''pwd'')
     (appliedDiscounts (calculateDiscounts settings tiers params)) = applied"
  by (auto simp: calculateDiscounts_def Let_def government_step_def split: option.splits if_splits)

text \<open>
  Claim C5 (discount precedence). When both the senior-citizen and the PWD flag are set, no
  PWD entry is applied and the government discount is the senior-citizen one (the
  percentage of the active senior-citizen setting on the subtotal, nothing when there is no
  such setting); in every evaluation at most one government discount is applied; and
  whenever an active membership tier is found for the supplied tier id, the membership
  discount is the tier's percentage of the subtotal less the government discount.
\<close>

theorem discount_precedence:
  fixes settings tiers params
  defines "r \<equiv> calculateDiscounts settings tiers params"
  shows
  "(dp_isSeniorCitizen params \<and> dp_isPwd params \<longrightarrow>
      (\<forall>a \<in> set (appliedDiscounts r). ad_type a \<noteq> ''pwd'') \<and>
      governmentDiscount r =
        (case find (\<lambda>d. ds_discount_type d = ''senior_citizen'') (govDiscounts settings) of
           Some sc \<Rightarrow> dp_subtotal params * (ds_percentage sc / 100)
         | None \<Rightarrow> 0)) \<and>
   length (filter (\<lambda>a. ad_type a = ''senior_citizen'' \<or> ad_type a = ''pwd'') (appliedDiscounts r)) \<le> 1 \<and>
   (\<forall>tier. active_tier tiers (dp_membershipTierId params) = Some tier \<longrightarrow>
      membershipDiscount r =
        (dp_subtotal params - governmentDiscount r) * (mt_discount_percentage tier / 100))"
proof (intro conjI impI allI)
  obtain gov vat applied where g: "government_step settings params = (gov, vat, applied)"
    by (cases "government_step settings params") auto
  show "length (filter (\<lambda>a. ad_type a = ''senior_citizen'' \<or> ad_type a = ''pwd'') (appliedDiscounts r)) \<le> 1"
    unfolding r_def using applied_gov_part [OF g] government_step_length [OF g] by simp
  {
    fix tier
    assume "active_tier tiers (dp_membershipTierId params) = Some tier"
    then show "membershipDiscount r =
        (dp_subtotal params - governmentDiscount r) * (mt_discount_percentage tier / 100)"
      unfolding r_def using g by (simp add: calculateDiscounts_def Let_def)
  }
  {
    assume both: "dp_isSeniorCitizen params \<and> dp_isPwd params"
    show "\<forall>a \<in> set (appliedDiscounts r). ad_type a \<noteq> ''pwd''"
      unfolding r_def using both
      by (auto simp: calculateDiscounts_def Let_def government_step_def split: option.splits if_splits)
    show "governmentDiscount r =
        (case find (\<lambda>d. ds_discount_type d = ''senior_citizen'') (govDiscounts settings) of
           Some sc \<Rightarrow> dp_subtotal params * (ds_percentage sc / 100)
         | None \<Rightarrow> 0)"
      unfolding r_def using both
      by (auto simp: calculateDiscounts_def Let_def government_step_def split: option.splits if_splits)
  }
qed

text \<open>
  A senior citizen who is also registered as PWD, Silver member, subtotal 1000: 20 percent
  senior-citizen discount (200), then 5 percent membership discount on 800 (40).
\<close>

theorem discount_precedence_witness:
  "dp_isSeniorCitizen ex_dparams \<and> dp_isPwd ex_dparams \<and>
   active_tier ex_tiers (dp_membershipTierId ex_dparams) = Some ex_tier \<and>
   map ad_type (appliedDiscounts (calculateDiscounts ex_settings ex_tiers ex_dparams)) =
     [''senior_citizen'', ''membership''] \<and>
   governmentDiscount (calculateDiscounts ex_settings ex_tiers ex_dparams) = 200 \<and>
   membershipDiscount (calculateDiscounts ex_settings ex_tiers ex_dparams) = 40"
proof -
  have flags: "dp_isSeniorCitizen ex_dparams \<and> dp_isPwd ex_dparams"
    by (simp add: ex_dparams_def)
  have tier: "active_tier ex_tiers (dp_membershipTierId ex_dparams) = Some ex_tier"
    by (simp add: active_tier_def ex_tiers_def ex_dparams_def ex_tier_def)
  have sc: "find (\<lambda>d. ds_discount_type d = ''senior_citizen'') (govDiscounts ex_settings) =
              Some \<lparr>ds_discount_type = ''senior_citizen'', ds_name = ''Senior Citizen Discount'',
                    ds_percentage = 20, ds_is_vat_exempt = True, ds_is_active = True\<rparr>"
    by (simp add: govDiscounts_def ex_settings_def)
  have sub: "dp_subtotal ex_dparams = 1000" "mt_discount_percentage ex_tier = 5"
    by (simp_all add: ex_dparams_def ex_tier_def)
  have types: "map ad_type (appliedDiscounts (calculateDiscounts ex_settings ex_tiers ex_dparams)) =
     [''senior_citizen'', ''membership'']"
    by (simp add: calculateDiscounts_def government_step_def flags sc tier sub Let_def)
  from discount_precedence [of ex_dparams ex_settings ex_tiers] flags tier types
  show ?thesis by (simp add: sc sub)
qed

section \<open>Properties of the promotion evaluator\<close>

lemma floor_sets:
  "\<lfloor>rat_of_int q / (rat_of_nat b + rat_of_nat g)\<rfloor> = q div (int b + int g)"
proof -
  have "rat_of_nat b + rat_of_nat g = rat_of_int (int b + int g)" by simp
  then show ?thesis by (simp only: floor_divide_of_int_eq)
qed

lemma buy_x_get_y_loop_sum:
  "buy_x_get_y_loop promo b g items d =
     d + (\<Sum>item \<leftarrow> filter (eligible_item (pr_targetProducts promo)) items.
            of_int \<lfloor>of_int (ci_quantity item) / (of_nat (b + g) :: rat)\<rfloor> * of_nat g * ci_price item)"
  by (induction items arbitrary: d) (simp_all add: Let_def floor_sets)

text \<open>
  Claim C7 as stated fails: a cap of zero is configured, the computed amount (10 percent of
  100) exceeds it, and the amount is not truncated to the cap.
\<close>

theorem zero_cap_counterexample:
  "pr_maxDiscountAmount capped_promo = Some 0 \<and>
   discount_by_type capped_promo [] 100 > the (pr_maxDiscountAmount capped_promo) \<and>
   calculateDiscount capped_promo [] 100 = 10"
  by (simp add: capped_promo_def auto_promo_def calculateDiscount_def discount_by_type_def)

text \<open>
  Claim C7, amended (promotion discount amount). By type: percentage gives
  \<open>subtotal * value/100\<close>; fixed_amount gives the configured value; buy_x_get_y gives, when
  both quantities are set and non-zero, the sum over the eligible items of
  \<open>floor(quantity / (buyQuantity + getQuantity)) * getQuantity * unitPrice\<close>, and nothing
  otherwise. The amount is truncated to \<open>maxDiscountAmount\<close> when that cap is set, non-zero
  and exceeded; a cap that is absent or zero leaves the amount as computed.
\<close>

theorem promotion_discount_amount:
  "(pr_promotionType promo = ''percentage'' \<longrightarrow>
      discount_by_type promo items subtotal = subtotal * (pr_discountValue promo / 100)) \<and>
   (pr_promotionType promo = ''fixed_amount'' \<longrightarrow>
      discount_by_type promo items subtotal = pr_discountValue promo) \<and>
   (pr_promotionType promo = ''buy_x_get_y'' \<longrightarrow>
      discount_by_type promo items subtotal =
        (case (pr_buyQuantity promo, pr_getQuantity promo) of
           (Some b, Some g) \<Rightarrow>
             if b \<noteq> 0 \<and> g \<noteq> 0
             then (\<Sum>item \<leftarrow> filter (eligible_item (pr_targetProducts promo)) items.
                     of_int \<lfloor>of_int (ci_quantity item) / (of_nat (b + g) :: rat)\<rfloor> *
                     of_nat g * ci_price item)
             else 0
         | _ \<Rightarrow> 0)) \<and>
   calculateDiscount promo items subtotal =
     (case pr_maxDiscountAmount promo of
        Some cap \<Rightarrow>
          if cap \<noteq> 0 \<and> discount_by_type promo items subtotal > cap then cap
          else discount_by_type promo items subtotal
      | None \<Rightarrow> discount_by_type promo items subtotal)"
  by (auto simp: discount_by_type_def calculateDiscount_def Let_def buy_x_get_y_loop_sum
           split: option.splits)

text \<open>
  Buy 2 get 1 on product a, capped at 150: 7 units at 100 make two sets, 200 of free value,
  truncated to 150; product b is not eligible.
\<close>

theorem promotion_discount_amount_witness:
  "pr_promotionType b2g1_promo = ''buy_x_get_y'' \<and>
   discount_by_type b2g1_promo b2g1_cart 820 = 200 \<and>
   calculateDiscount b2g1_promo b2g1_cart 820 = 150"
proof -
  have ty: "pr_promotionType b2g1_promo = ''buy_x_get_y''"
    by (simp add: b2g1_promo_def)
  have fields: "pr_buyQuantity b2g1_promo = Some 2" "pr_getQuantity b2g1_promo = Some 1"
    "pr_targetProducts b2g1_promo = Some [''a'']" "pr_maxDiscountAmount b2g1_promo = Some 150"
    by (simp_all add: b2g1_promo_def)
  have fl: "\<lfloor>(7::rat) / 3\<rfloor> = 2"
    by (rule floor_unique) simp_all
  from promotion_discount_amount [of b2g1_promo b2g1_cart 820] ty
  show ?thesis by (simp add: fields b2g1_cart_def fl)
qed

lemma promo_loop_eq:
  "promo_loop params subtotal rows (appl, tot) =
     (let ms = filter (promo_matches params subtotal) rows;
          xs = takeWhile pr_isStackable ms @ take 1 (dropWhile pr_isStackable ms)
      in (appl @ xs, tot + (\<Sum>p \<leftarrow> xs. calculateDiscount p (cp_items params) subtotal)))"
proof (induction rows arbitrary: appl tot)
  case Nil
  then show ?case by simp
next
  case (Cons p rows)
  show ?case
    by (simp add: Cons.IH Let_def promo_matches_def add.assoc)
qed

lemma activePromotions_sorted:
  "sorted_wrt (\<lambda>a b. pr_priority a \<ge> pr_priority b) (activePromotions now table)"
proof -
  have "sorted (map (\<lambda>p. - pr_priority p) (activePromotions now table))"
    by (simp add: activePromotions_def)
  then show ?thesis by (simp add: sorted_map)
qed

lemma stop_subseq: "subseq (takeWhile P ms @ take 1 (dropWhile P ms)) ms"
  by (induction ms) auto

text \<open>
  Claim C6 as stated fails: with the coupon save20 supplied, the automatic promotion of
  higher priority is evaluated before the promotion that matches the coupon; being
  non-stackable it stops the evaluation, and the coupon's promotion, whose conditions hold,
  is never applied.
\<close>

theorem coupon_not_first_counterexample:
  "coupon_matches (cp_couponCode coupon_cart) coupon_promo \<and>
   checkPromotionConditions coupon_promo (cp_items coupon_cart)
     (cart_subtotal (cp_items coupon_cart)) (cp_customerId coupon_cart)
     (cp_membershipTierId coupon_cart) \<and>
   checkApplicable 50 [coupon_promo, auto_promo] coupon_cart =
     \<lparr>applicable = [auto_promo], discountAmount = 5\<rparr>"
proof -
  have ap: "activePromotions 50 [coupon_promo, auto_promo] = [auto_promo, coupon_promo]"
    by (simp add: activePromotions_def is_candidate_def auto_promo_def coupon_promo_def)
  have cm: "coupon_matches (cp_couponCode coupon_cart) coupon_promo"
    by (simp add: coupon_matches_def coupon_cart_def coupon_promo_def auto_promo_def
                  toUpperCase_def upper_char_def)
  have cc: "checkPromotionConditions coupon_promo (cp_items coupon_cart)
     (cart_subtotal (cp_items coupon_cart)) (cp_customerId coupon_cart)
     (cp_membershipTierId coupon_cart)"
    by (simp add: checkPromotionConditions_def coupon_cart_def coupon_promo_def auto_promo_def)
  have res: "checkApplicable 50 [coupon_promo, auto_promo] coupon_cart =
     \<lparr>applicable = [auto_promo], discountAmount = 5\<rparr>"
    by (simp add: checkApplicable_def ap)
       (simp add: auto_promo_def coupon_promo_def coupon_cart_def coupon_matches_def
                  checkPromotionConditions_def calculateDiscount_def discount_by_type_def)
  from cm cc res show ?thesis by simp
qed

text \<open>
  Claim C6, amended (promotion evaluation order and stacking). The candidate promotions
  are evaluated in one pass in descending priority order, coupon promotions and codeless
  ones alike: a promotion with a code takes part only if the code matches the supplied
  coupon (without regard to case), a codeless one always does. The promotions applied are
  the matching stackable ones up to and including the first matching non-stackable one,
  which stops the evaluation, and the discount is the sum of their amounts.
\<close>

theorem promotion_order_and_stacking:
  fixes now table params
  defines "rows \<equiv> activePromotions now table"
      and "subtotal \<equiv> cart_subtotal (cp_items params)"
      and "r \<equiv> checkApplicable now table params"
  shows
  "sorted_wrt (\<lambda>a b. pr_priority a \<ge> pr_priority b) rows \<and>
   applicable r =
     takeWhile pr_isStackable (filter (promo_matches params subtotal) rows) @
     take 1 (dropWhile pr_isStackable (filter (promo_matches params subtotal) rows)) \<and>
   discountAmount r = (\<Sum>p \<leftarrow> applicable r. calculateDiscount p (cp_items params) subtotal) \<and>
   subseq (applicable r) rows"
proof -
  have a: "applicable r =
     takeWhile pr_isStackable (filter (promo_matches params subtotal) rows) @
     take 1 (dropWhile pr_isStackable (filter (promo_matches params subtotal) rows))"
    by (simp add: r_def rows_def subtotal_def checkApplicable_def promo_loop_eq Let_def)
  have d: "discountAmount r = (\<Sum>p \<leftarrow> applicable r. calculateDiscount p (cp_items params) subtotal)"
    by (simp add: r_def rows_def subtotal_def checkApplicable_def promo_loop_eq Let_def)
  have "subseq (applicable r) (filter (promo_matches params subtotal) rows)"
    unfolding a by (rule stop_subseq)
  then have s: "subseq (applicable r) rows"
    using subseq_filter_left subseq_order.order_trans by blast
  from a d s activePromotions_sorted [of now table] show ?thesis
    by (simp add: rows_def)
qed

text \<open>
  Four candidates and the coupon save20: the stackable promotions of priority 9 (automatic)
  and 7 (coupon) accumulate, the non-stackable one of priority 5 is applied and stops the
  evaluation, the one of priority 1 is never reached: 3 + 20 + 20 = 43.
\<close>

theorem promotion_order_and_stacking_witness:
  "checkApplicable 50 [low_promo, coupon_promo, stack_coupon_promo, stack_promo] coupon_cart =
     \<lparr>applicable = [stack_promo, stack_coupon_promo, coupon_promo], discountAmount = 43\<rparr>"
proof -
  have ap: "activePromotions 50 [low_promo, coupon_promo, stack_coupon_promo, stack_promo] =
              [stack_promo, stack_coupon_promo, coupon_promo, low_promo]"
    by (simp add: activePromotions_def is_candidate_def auto_promo_def coupon_promo_def
                  stack_promo_def stack_coupon_promo_def low_promo_def)
  have m: "promo_matches coupon_cart (cart_subtotal (cp_items coupon_cart)) stack_promo"
    "promo_matches coupon_cart (cart_subtotal (cp_items coupon_cart)) stack_coupon_promo"
    "promo_matches coupon_cart (cart_subtotal (cp_items coupon_cart)) coupon_promo"
    "promo_matches coupon_cart (cart_subtotal (cp_items coupon_cart)) low_promo"
    by (simp_all add: promo_matches_def coupon_matches_def checkPromotionConditions_def
                      coupon_cart_def auto_promo_def coupon_promo_def stack_promo_def
                      stack_coupon_promo_def low_promo_def toUpperCase_def upper_char_def)
  have st: "pr_isStackable stack_promo" "pr_isStackable stack_coupon_promo"
    "\<not> pr_isStackable coupon_promo"
    by (simp_all add: auto_promo_def coupon_promo_def stack_promo_def stack_coupon_promo_def)
  have c: "calculateDiscount stack_promo (cp_items coupon_cart) (cart_subtotal (cp_items coupon_cart)) = 3"
    "calculateDiscount stack_coupon_promo (cp_items coupon_cart) (cart_subtotal (cp_items coupon_cart)) = 20"
    "calculateDiscount coupon_promo (cp_items coupon_cart) (cart_subtotal (cp_items coupon_cart)) = 20"
    by (simp_all add: calculateDiscount_def discount_by_type_def auto_promo_def coupon_promo_def
                      stack_promo_def stack_coupon_promo_def)
  from promotion_order_and_stacking
         [of 50 "[low_promo, coupon_promo, stack_coupon_promo, stack_promo]" coupon_cart]
  have "applicable (checkApplicable 50 [low_promo, coupon_promo, stack_coupon_promo, stack_promo] coupon_cart) =
          [stack_promo, stack_coupon_promo, coupon_promo] \<and>
        discountAmount (checkApplicable 50 [low_promo, coupon_promo, stack_coupon_promo, stack_promo] coupon_cart) = 43"
    by (simp add: ap m st c)
  then show ?thesis
    by (cases "checkApplicable 50 [low_promo, coupon_promo, stack_coupon_promo, stack_promo] coupon_cart") simp
qed

section \<open>Properties of the sale transaction engine\<close>

lemma same_catalog_refl: "same_catalog s s"
  by (simp add: same_catalog_def)

lemma same_catalog_trans:
  "same_catalog s s1 \<Longrightarrow> same_catalog s1 s2 \<Longrightarrow> same_catalog s s2"
  by (simp add: same_catalog_def)

lemma item_row_stock: "item_row d (p\<lparr>p_current_stock := x\<rparr>) it = item_row d p it"
  by (simp add: item_row_def Let_def)

lemma item_row_cong:
  assumes "p\<lparr>p_current_stock := 0\<rparr> = q\<lparr>p_current_stock := 0\<rparr>"
  shows "item_row d p it = item_row d q it"
proof -
  have "item_row d p it = item_row d (p\<lparr>p_current_stock := 0\<rparr>) it"
    by (simp only: item_row_stock)
  also have "\<dots> = item_row d (q\<lparr>p_current_stock := 0\<rparr>) it"
    by (simp only: assms)
  also have "\<dots> = item_row d q it"
    by (simp only: item_row_stock)
  finally show ?thesis .
qed

lemma same_catalog_lookup:
  assumes "same_catalog s s'" "db_products s' pid = Some p'"
  shows "\<exists>p. db_products s pid = Some p \<and> p\<lparr>p_current_stock := 0\<rparr> = p'\<lparr>p_current_stock := 0\<rparr>"
proof -
  from assms(1) have "map_option (\<lambda>p. p\<lparr>p_current_stock := 0\<rparr>) (db_products s' pid) =
                      map_option (\<lambda>p. p\<lparr>p_current_stock := 0\<rparr>) (db_products s pid)"
    unfolding same_catalog_def by blast
  with assms(2) show ?thesis by (cases "db_products s pid") auto
qed

lemma deduct_stock_catalog:
  "db_products s (si_productId it) = Some p \<Longrightarrow> same_catalog s (deduct_stock u p it s)"
  by (simp add: same_catalog_def deduct_stock_def)

lemma deduct_stock_frame:
  "db_customers (deduct_stock u p it s) = db_customers s"
  "db_membership_tiers (deduct_stock u p it s) = db_membership_tiers s"
  "db_users (deduct_stock u p it s) = db_users s"
  "db_sales (deduct_stock u p it s) = db_sales s"
  "db_sale_items (deduct_stock u p it s) = db_sale_items s"
  "db_sale_payments (deduct_stock u p it s) = db_sale_payments s"
  "db_sale_discounts (deduct_stock u p it s) = db_sale_discounts s"
  "db_loyalty_points_history (deduct_stock u p it s) = db_loyalty_points_history s"
  by (simp_all add: deduct_stock_def)

lemma process_item_error:
  "process_item d u it st = Inl e \<Longrightarrow> \<exists>m. e = BadRequestError m"
  by (auto simp: process_item_def Let_def split: prod.splits option.splits if_splits)

lemma process_items_error:
  "process_items d u items st = Inl e \<Longrightarrow> \<exists>m. e = BadRequestError m"
proof (induction items arbitrary: st)
  case Nil
  then show ?case by simp
next
  case (Cons it items)
  then show ?case
    by (auto split: sum.splits dest: process_item_error)
qed

lemma process_item_ok:
  assumes "process_item d u it ((sub, tax, rows), s) = Inr ((sub', tax', rows'), s')"
  shows "\<exists>p. db_products s (si_productId it) = Some p \<and> \<not> p_deleted p \<and>
             \<not> (p_track_inventory p \<and> p_current_stock p < si_quantity it) \<and>
             sub' = sub + i_subtotal (item_row d p it) \<and>
             tax' = tax + i_taxAmount (item_row d p it) \<and>
             rows' = rows @ [item_row d p it] \<and>
             s' = deduct_stock u p it s"
  using assms
  by (auto simp: process_item_def Let_def split: option.splits if_splits)

lemma process_items_ok:
  assumes "process_items d u items ((sub, tax, rows), s1) = Inr ((sub', tax', rows'), s')"
      and "same_catalog s s1"
  shows "same_catalog s s' \<and>
         sub' = sub + (\<Sum>it \<leftarrow> items. i_subtotal (cart_line d s it)) \<and>
         tax' = tax + (\<Sum>it \<leftarrow> items. i_taxAmount (cart_line d s it)) \<and>
         rows' = rows @ map (cart_line d s) items \<and>
         db_customers s' = db_customers s1 \<and>
         db_membership_tiers s' = db_membership_tiers s1 \<and>
         db_users s' = db_users s1 \<and>
         db_sales s' = db_sales s1 \<and>
         db_sale_items s' = db_sale_items s1 \<and>
         db_sale_payments s' = db_sale_payments s1 \<and>
         db_sale_discounts s' = db_sale_discounts s1 \<and>
         db_loyalty_points_history s' = db_loyalty_points_history s1"
  using assms
proof (induction items arbitrary: sub tax rows s1)
  case Nil
  then show ?case by simp
next
  case (Cons it items)
  from Cons.prems(1) obtain sub2 tax2 rows2 s2 where
    step: "process_item d u it ((sub, tax, rows), s1) = Inr ((sub2, tax2, rows2), s2)"
    and rest: "process_items d u items ((sub2, tax2, rows2), s2) = Inr ((sub', tax', rows'), s')"
    by (auto split: sum.splits)
  from process_item_ok [OF step] obtain p where
    p: "db_products s1 (si_productId it) = Some p"
    and acc: "sub2 = sub + i_subtotal (item_row d p it)" "tax2 = tax + i_taxAmount (item_row d p it)"
      "rows2 = rows @ [item_row d p it]"
    and s2: "s2 = deduct_stock u p it s1"
    by blast
  from same_catalog_lookup [OF Cons.prems(2) p] obtain p0 where
    p0: "db_products s (si_productId it) = Some p0"
    and eq: "p0\<lparr>p_current_stock := 0\<rparr> = p\<lparr>p_current_stock := 0\<rparr>"
    by blast
  have line: "item_row d p it = cart_line d s it"
    using item_row_cong [OF eq, of d it] p0 by (simp add: cart_line_def)
  have cat2: "same_catalog s s2"
    using same_catalog_trans [OF Cons.prems(2) deduct_stock_catalog [OF p, of u]] s2 by simp
  from Cons.IH [OF rest cat2] acc line s2 show ?case
    by (simp add: deduct_stock_frame)
qed

lemma insert_payments_frame:
  "insert_payments saleId ps s = Inr s' \<Longrightarrow>
     db_products s' = db_products s \<and> db_customers s' = db_customers s \<and>
     db_membership_tiers s' = db_membership_tiers s \<and> db_users s' = db_users s \<and>
     db_sales s' = db_sales s \<and> db_sale_items s' = db_sale_items s \<and>
     db_stock_movements s' = db_stock_movements s \<and>
     db_sale_discounts s' = db_sale_discounts s \<and>
     db_loyalty_points_history s' = db_loyalty_points_history s"
proof (induction ps arbitrary: s)
  case Nil
  then show ?case by simp
next
  case (Cons p ps)
  from Cons.prems show ?case
    by (auto split: if_splits dest!: Cons.IH)
qed

lemma split_payments_frame:
  "split_payments_step d saleId s = Inr s' \<Longrightarrow>
     db_products s' = db_products s \<and> db_customers s' = db_customers s \<and>
     db_membership_tiers s' = db_membership_tiers s \<and> db_users s' = db_users s \<and>
     db_sales s' = db_sales s \<and> db_sale_items s' = db_sale_items s \<and>
     db_stock_movements s' = db_stock_movements s \<and>
     db_sale_discounts s' = db_sale_discounts s \<and>
     db_loyalty_points_history s' = db_loyalty_points_history s"
  by (auto simp: split_payments_step_def split: option.splits if_splits dest: insert_payments_frame)

lemma government_discount_frame:
  "db_sales (government_discount_step d saleId td s) = db_sales s"
  "db_sale_items (government_discount_step d saleId td s) = db_sale_items s"
  "db_products (government_discount_step d saleId td s) = db_products s"
  "db_customers (government_discount_step d saleId td s) = db_customers s"
  "db_stock_movements (government_discount_step d saleId td s) = db_stock_movements s"
  by (simp_all add: government_discount_step_def)

lemma customer_step_frame:
  "db_sales (customer_step d u saleId pe pr ta s) = db_sales s"
  "db_sale_items (customer_step d u saleId pe pr ta s) = db_sale_items s"
  "db_products (customer_step d u saleId pe pr ta s) = db_products s"
  "db_stock_movements (customer_step d u saleId pe pr ta s) = db_stock_movements s"
  by (simp_all add: customer_step_def Let_def split: option.splits)

lemma loyalty_step_value:
  "loyalty_step d s ta pr = Inr (pe, pv) \<Longrightarrow>
   pv = (if truthy_str (d_customerId d) \<and> db_customers s (the (d_customerId d)) \<noteq> None \<and> 0 < pr
         then of_int pr else 0)"
  by (auto simp: loyalty_step_def Let_def split: if_splits option.splits)

lemma create_body_ok:
  assumes "create_body d u s = Inr (saleId, s')"
  shows "\<exists>pe pv.
     saleId = length (db_sales s) \<and>
     db_sales s' = db_sales s @
       [new_sale d u (\<Sum>it \<leftarrow> d_items d. i_subtotal (cart_line d s it))
                     (\<Sum>it \<leftarrow> d_items d. i_taxAmount (cart_line d s it)) pe pv] \<and>
     db_sale_items s' = db_sale_items s @
       map (\<lambda>it. \<lparr>sir_sale_id = saleId, sir_item = cart_line d s it\<rparr>) (d_items d) \<and>
     pv = (if truthy_str (d_customerId d) \<and> 0 < int_or (d_pointsToRedeem d) 0
           then of_int (int_or (d_pointsToRedeem d) 0) else 0)"
proof -
  from assms obtain sub tax rows s1 where
    loop: "process_items d u (d_items d) ((0, 0, []), s) = Inr ((sub, tax, rows), s1)"
    by (auto simp: create_body_def split: sum.splits prod.splits)
  from process_items_ok [OF loop same_catalog_refl] have
    acc: "sub = (\<Sum>it \<leftarrow> d_items d. i_subtotal (cart_line d s it))"
         "tax = (\<Sum>it \<leftarrow> d_items d. i_taxAmount (cart_line d s it))"
         "rows = map (cart_line d s) (d_items d)"
    and fr: "db_sales s1 = db_sales s" "db_sale_items s1 = db_sale_items s"
    by simp_all
  from assms loop obtain pe pv where
    loy: "loyalty_step d s1 (sub - num_or (d_discountAmount d) 0 + tax) (int_or (d_pointsToRedeem d) 0) = Inr (pe, pv)"
    by (auto simp: create_body_def Let_def split: sum.splits prod.splits)
  from assms loop loy have
    fk: "\<not> (truthy_str (d_customerId d) \<and> db_customers s1 (the (d_customerId d)) = None)"
    by (auto simp: create_body_def Let_def split: sum.splits prod.splits if_splits)
  from assms loop loy fk obtain s3 where
    pay: "split_payments_step d (length (db_sales s1))
            (s1\<lparr>db_sales := db_sales s1 @ [new_sale d u sub tax pe pv],
                db_sale_items := db_sale_items s1 @
                  map (\<lambda>item. \<lparr>sir_sale_id = length (db_sales s1), sir_item = item\<rparr>) rows\<rparr>) = Inr s3"
    and res: "saleId = length (db_sales s1)"
      "s' = customer_step d u (length (db_sales s1)) pe (int_or (d_pointsToRedeem d) 0)
              (sub - num_or (d_discountAmount d) 0 + tax)
              (government_discount_step d (length (db_sales s1)) (num_or (d_discountAmount d) 0) s3)"
    by (auto simp: create_body_def Let_def split: sum.splits prod.splits if_splits)
  from split_payments_frame [OF pay] have
    s3: "db_sales s3 = db_sales s1 @ [new_sale d u sub tax pe pv]"
        "db_sale_items s3 = db_sale_items s1 @
           map (\<lambda>item. \<lparr>sir_sale_id = length (db_sales s1), sir_item = item\<rparr>) rows"
    by simp_all
  have pv: "pv = (if truthy_str (d_customerId d) \<and> 0 < int_or (d_pointsToRedeem d) 0
           then of_int (int_or (d_pointsToRedeem d) 0) else 0)"
    using loyalty_step_value [OF loy] fk by auto
  have "saleId = length (db_sales s) \<and>
     db_sales s' = db_sales s @
       [new_sale d u (\<Sum>it \<leftarrow> d_items d. i_subtotal (cart_line d s it))
                     (\<Sum>it \<leftarrow> d_items d. i_taxAmount (cart_line d s it)) pe pv] \<and>
     db_sale_items s' = db_sale_items s @
       map (\<lambda>it. \<lparr>sir_sale_id = saleId, sir_item = cart_line d s it\<rparr>) (d_items d)"
    using res s3 fr acc
    by (simp add: customer_step_frame government_discount_frame o_def)
  with pv show ?thesis by blast
qed

lemma create_error_rollback:
  "create d u s = (Inl e, s') \<Longrightarrow> s' = s"
proof -
  assume a: "create d u s = (Inl e, s')"
  show ?thesis
  proof (cases "create_body d u s")
    case (Inl e')
    with a show ?thesis by (simp add: create_def)
  next
    case (Inr r)
    obtain saleId s2 where r: "r = (saleId, s2)" by (cases r)
    from create_body_ok [of d u s saleId s2] Inr r
    have "saleId < length (db_sales s2)" by auto
    with a Inr r show ?thesis by (simp add: create_def getById_def)
  qed
qed


lemma new_sale_fields:
  "s_total_amount (new_sale d u sub tax pe pv) = sub - num_or (d_discountAmount d) 0 + tax - pv"
  "s_subtotal (new_sale d u sub tax pe pv) = sub"
  "s_discount_amount (new_sale d u sub tax pe pv) = num_or (d_discountAmount d) 0"
  "s_tax_amount (new_sale d u sub tax pe pv) = tax"
  "s_points_redeemed (new_sale d u sub tax pe pv) = int_or (d_pointsToRedeem d) 0"
  "s_points_value_redeemed (new_sale d u sub tax pe pv) = pv"
  "s_points_earned (new_sale d u sub tax pe pv) = pe"
  "s_status (new_sale d u sub tax pe pv) = ''completed''"
  "s_amount_tendered (new_sale d u sub tax pe pv) =
     (if truthy_num (d_amountTendered d) then d_amountTendered d else None)"
  "s_change_amount (new_sale d u sub tax pe pv) =
     (if truthy_num (d_amountTendered d) \<and>
         the (d_amountTendered d) - (sub - num_or (d_discountAmount d) 0 + tax) > 0
      then Some (the (d_amountTendered d) - (sub - num_or (d_discountAmount d) 0 + tax))
      else None)"
  by (simp_all add: new_sale_def Let_def)





























lemmas eval_defs = create_def create_body_def process_item_def item_row_def deduct_stock_def
  loyalty_step_def points_multiplier_def new_sale_def split_payments_step_def
  government_discount_step_def customer_step_def getById_def Let_def
  ex_db_def ex_soap_def ex_service_def ex_rice_def ex_customer_def ex_supervisor_def
  line_def ex_data_def









lemma floor_3_2: "\<lfloor>(3::rat) / 2\<rfloor> = 1"
  by (rule floor_unique) simp_all

lemma after_sale_tables:
  "db_sales after_sale = [new_sale service_sale ''cashier'' 150 0 1 50]"
  "db_sale_items after_sale = [\<lparr>sir_sale_id = 0, sir_item = item_row service_sale ex_service (line ''p2'' 3)\<rparr>]"
  "db_products after_sale = db_products ex_db"
  "db_users after_sale = db_users ex_db"
  "db_customers after_sale = [''c1'' \<mapsto> \<lparr>c_loyalty_points = 451, c_lifetime_spend = 1150,
      c_total_transactions = 5, c_membership_tier_id = None\<rparr>]"
  by (simp_all add: after_sale_def service_sale_def eval_defs floor_3_2)

lemma void_body:
  "reverse_sale Void 0 ''mistake'' ''manager'' ''manager'' after_sale =
      Inr (after_sale
            \<lparr>db_sales := [mark_sale Void ''mistake'' ''manager'' ''manager''
                            (new_sale service_sale ''cashier'' 150 0 1 50)],
             db_products := (db_products ex_db)(''p2'' \<mapsto> ex_service\<lparr>p_current_stock := 13\<rparr>),
             db_stock_movements := db_stock_movements after_sale @
               [\<lparr>sm_product_id = ''p2'', sm_movement_type = ''return'', sm_quantity = 3,
                 sm_quantity_before = 10, sm_quantity_after = 13, sm_reference_type = ''void'',
                 sm_reference_id = Some 0, sm_notes = Some ''Void: mistake'',
                 sm_created_by = ''manager''\<rparr>],
             db_customers := [''c1'' \<mapsto> \<lparr>c_loyalty_points = 500, c_lifetime_spend = 1050,
                c_total_transactions = 4, c_membership_tier_id = None\<rparr>]\<rparr>)"
    by (simp add: reverse_sale_def after_sale_tables Let_def new_sale_fields item_row_def
                  line_def ex_db_def ex_service_def reverse_customer_def new_sale_def
                  service_sale_def ex_data_def)

lemma void_ok: "\<not> isl (fst (voidSaleSelfAuthorized 0 ''mistake'' ''manager'' after_sale))"
  by (simp add: voidSaleSelfAuthorized_def void_body getById_def)

lemma after_void_tables:
  "db_users after_void = db_users ex_db"
  "length (db_sales after_void) = 1"
  "s_status (db_sales after_void ! 0) = ''voided''"
  "map_option p_current_stock (db_products after_void ''p2'') = Some 13"
  "map_option c_lifetime_spend (db_customers after_void ''c1'') = Some 1050"
  "map_option c_loyalty_points (db_customers after_void ''c1'') = Some 500"
  "map_option c_total_transactions (db_customers after_void ''c1'') = Some 4"
  by (simp_all add: after_void_def voidSaleSelfAuthorized_def void_body after_sale_tables
                    mark_sale_def)

text \<open>
  Claim C2 (reversal round-trip) fails on the code. Three units of a product that does not
  track inventory are sold to a customer who redeems 50 points, and the sale is voided at
  once. The sale leaves the product's stock at 10 and the void raises it to 13; the sale
  adds the total before points, 150, to the lifetime spend and the void subtracts the total
  after points, 100, so that 1000 becomes 1050. The point balance and the transaction count
  are restored.
\<close>

theorem reversal_not_exact:
  "\<not> isl (fst (create service_sale ''cashier'' ex_db)) \<and>
   \<not> isl (fst (voidSaleSelfAuthorized 0 ''mistake'' ''manager'' after_sale)) \<and>
   map_option p_track_inventory (db_products ex_db ''p2'') = Some False \<and>
   map_option p_current_stock (db_products ex_db ''p2'') = Some 10 \<and>
   map_option p_current_stock (db_products after_sale ''p2'') = Some 10 \<and>
   map_option p_current_stock (db_products after_void ''p2'') = Some 13 \<and>
   map_option c_lifetime_spend (db_customers ex_db ''c1'') = Some 1000 \<and>
   map_option c_lifetime_spend (db_customers after_sale ''c1'') = Some 1150 \<and>
   map_option c_lifetime_spend (db_customers after_void ''c1'') = Some 1050 \<and>
   map_option c_loyalty_points (db_customers ex_db ''c1'') = Some 500 \<and>
   map_option c_loyalty_points (db_customers after_void ''c1'') = Some 500 \<and>
   map_option c_total_transactions (db_customers ex_db ''c1'') = Some 4 \<and>
   map_option c_total_transactions (db_customers after_void ''c1'') = Some 4"
proof -
  have c: "\<not> isl (fst (create service_sale ''cashier'' ex_db))"
    by (simp add: service_sale_def eval_defs)
  have before: "map_option p_track_inventory (db_products ex_db ''p2'') = Some False"
    "map_option p_current_stock (db_products ex_db ''p2'') = Some 10"
    "map_option c_lifetime_spend (db_customers ex_db ''c1'') = Some 1000"
    "map_option c_loyalty_points (db_customers ex_db ''c1'') = Some 500"
    "map_option c_total_transactions (db_customers ex_db ''c1'') = Some 4"
    by (simp_all add: ex_db_def ex_service_def ex_customer_def)
  have mid: "map_option p_current_stock (db_products after_sale ''p2'') = Some 10"
    "map_option c_lifetime_spend (db_customers after_sale ''c1'') = Some 1150"
    by (simp_all add: after_sale_tables ex_db_def ex_service_def)
  from c void_ok before mid after_void_tables show ?thesis by simp
qed



text \<open>
  Claim C8 (supervisor authorization) fails on the code. The first statement of \<open>voidSale\<close>
  and of \<open>refundSale\<close> selects the column \<open>supervisor_pin_hash\<close>, which the table \<open>users\<close>
  does not have: every call, with a wrong PIN or the right one, with or without the
  capability, ends in the error of the database, status 500, and never in an Unauthorized
  (401) or Forbidden (403) error; nothing is changed.
\<close>

theorem supervisor_check_divergence:
  "voidSale cmp saleId reason supervisorId supervisorPin voidedBy s =
     (Inl (InternalError ''column supervisor_pin_hash does not exist''), s) \<and>
   refundSale cmp saleId reason supervisorId supervisorPin refundedBy s =
     (Inl (InternalError ''column supervisor_pin_hash does not exist''), s) \<and>
   statusCode (InternalError ''column supervisor_pin_hash does not exist'') = 500 \<and>
   statusCode (UnauthorizedError m) = 401 \<and>
   statusCode (ForbiddenError m) = 403"
  by (simp add: voidSale_def refundSale_def verify_supervisor_def select_users_def
                users_columns_def)

end
